theory Spec2Isabelle
  imports Main "HOL-Library.Sublist"
begin

section \<open>JavaScript values carried by the socket events\<close>

text \<open>
  Event payloads are JSON values. Numbers are restricted to integers (margins, sizes);
  \<open>NaN\<close> and fractions do not occur in what the handlers inspect. An object is the list
  of its own properties; no handler depends on the order in which they are enumerated.
\<close>

datatype jsval =
    JUndefined
  | JNull
  | JBool bool
  | JNum int
  | JStr string
  | JArr "jsval list"
  | JObj "(string \<times> jsval) list"

datatype error = TypeError | SystemError string

text \<open>Truthiness, as tested by \<^verbatim>\<open>if (x)\<close>, \<^verbatim>\<open>x || y\<close> and \<^verbatim>\<open>x && y\<close>.\<close>

fun truthy :: "jsval \<Rightarrow> bool" where
  "truthy JUndefined = False"
| "truthy JNull = False"
| "truthy (JBool b) = b"
| "truthy (JNum n) = (n \<noteq> 0)"
| "truthy (JStr s) = (s \<noteq> [])"
| "truthy (JArr xs) = True"
| "truthy (JObj kvs) = True"

text \<open>\<^verbatim>\<open>a || b\<close>\<close>

definition js_or :: "jsval \<Rightarrow> jsval \<Rightarrow> jsval" where
  "js_or a b = (if truthy a then a else b)"

text \<open>
  Property read \<^verbatim>\<open>x.k\<close> for the property names the handlers use (\<open>name\<close>, \<open>margins\<close>,
  \<open>colors\<close>, \<open>fileName\<close>, \<open>fileData\<close>, \<open>preview\<close>): reading from \<open>undefined\<close> or \<open>null\<close>
  throws a TypeError, a missing property and a property of a primitive or an array
  read as \<open>undefined\<close>.
\<close>

fun get_prop :: "jsval \<Rightarrow> string \<Rightarrow> error + jsval" where
  "get_prop JUndefined k = Inl TypeError"
| "get_prop JNull k = Inl TypeError"
| "get_prop (JObj kvs) k = Inr (case map_of kvs k of None \<Rightarrow> JUndefined | Some v \<Rightarrow> v)"
| "get_prop v k = Inr JUndefined"

text \<open>
  Assignment to a key of an object, and \<^verbatim>\<open>Map.prototype.set\<close>: an existing key keeps
  its position and takes the new value, a new key goes to the end.
\<close>

fun set_key :: "'k \<Rightarrow> 'v \<Rightarrow> ('k \<times> 'v) list \<Rightarrow> ('k \<times> 'v) list" where
  "set_key k v [] = [(k, v)]"
| "set_key k v (p # ps) = (if fst p = k then (k, v) # ps else p # set_key k v ps)"

text \<open>\<^verbatim>\<open>Map.prototype.delete\<close>\<close>

definition delete_key :: "'k \<Rightarrow> ('k \<times> 'v) list \<Rightarrow> ('k \<times> 'v) list" where
  "delete_key k kvs = filter (\<lambda>p. fst p \<noteq> k) kvs"

text \<open>
  \<^verbatim>\<open>Map.prototype.get\<close> on a map whose keys are socket ids (strings), with a key that
  comes from a client and may be any value: only a string can match.
\<close>

fun map_get :: "(string \<times> 'v) list \<Rightarrow> jsval \<Rightarrow> 'v option" where
  "map_get m (JStr k) = map_of m k"
| "map_get m v = None"

text \<open>Decimal rendering of a number in a template literal.\<close>

definition digit_char :: "nat \<Rightarrow> char" where
  "digit_char d = char_of (48 + d)"

function show_nat :: "nat \<Rightarrow> string" where
  "show_nat n = (if n < 10 then [digit_char n] else show_nat (n div 10) @ [digit_char (n mod 10)])"
  by pat_completeness auto
termination
  by (relation "measure id") auto

declare show_nat.simps [simp del]

text \<open>
  The own enumerable properties copied by an object spread \<^verbatim>\<open>{...x}\<close>: those of an
  object, the indexed elements of an array, the indexed characters of a string, and
  nothing for the other values.
\<close>

fun indexed :: "nat \<Rightarrow> jsval list \<Rightarrow> (string \<times> jsval) list" where
  "indexed i [] = []"
| "indexed i (x # xs) = (show_nat i, x) # indexed (Suc i) xs"

fun spread_entries :: "jsval \<Rightarrow> (string \<times> jsval) list" where
  "spread_entries (JObj kvs) = kvs"
| "spread_entries (JArr xs) = indexed 0 xs"
| "spread_entries (JStr s) = indexed 0 (map (\<lambda>c. JStr [c]) s)"
| "spread_entries v = []"

text \<open>\<^verbatim>\<open>{...a, ...b}\<close> for an object \<open>a\<close> given by its properties.\<close>

definition spread_merge :: "(string \<times> jsval) list \<Rightarrow> jsval \<Rightarrow> (string \<times> jsval) list" where
  "spread_merge a b = fold (\<lambda>(k, v) acc. set_key k v acc) (spread_entries b) a"

section \<open>Outbound events\<close>

text \<open>
  Who an emission goes to: \<^verbatim>\<open>socket.emit\<close> and \<^verbatim>\<open>io.to(socket.id).emit\<close> (one socket),
  \<^verbatim>\<open>io.emit\<close> (every connected socket), \<^verbatim>\<open>socket.broadcast.emit\<close> (every socket but the
  sender), \<^verbatim>\<open>io.to(room).emit\<close> (the sockets that joined the room).
\<close>

datatype audience =
    ToSocket string
  | ToAll
  | ToOthers string
  | ToRoom string

datatype emission = Emit audience string jsval

text \<open>
  Whether the connected socket \<open>t\<close> is delivered an emission, given the rooms each
  socket has joined.
\<close>

fun receives :: "(string \<times> string) list \<Rightarrow> string \<Rightarrow> emission \<Rightarrow> bool" where
  "receives rooms t (Emit (ToSocket s) ev p) = (t = s)"
| "receives rooms t (Emit ToAll ev p) = True"
| "receives rooms t (Emit (ToOthers s) ev p) = (t \<noteq> s)"
| "receives rooms t (Emit (ToRoom r) ev p) = ((t, r) \<in> set rooms)"

section \<open>server.js: the global-broadcast server\<close>

record display_settings =
  margins :: jsval
  colors :: jsval

record server_state =
  streams :: "(string \<times> jsval) list"
  activeLiveDevice :: jsval
  displaySettings :: display_settings
  mobileSettings :: "(string \<times> jsval) list"

definition server_init :: server_state where
  "server_init = \<lparr>
     streams = [],
     activeLiveDevice = JNull,
     displaySettings = \<lparr>
       margins = JObj [(''left'', JNum 0), (''right'', JNum 0), (''top'', JNum 0), (''bottom'', JNum 0)],
       colors = JObj [(''background'', JStr ''#000000''), (''font'', JStr ''#FFFFFF'')] \<rparr>,
     mobileSettings = [(''cameraFlip'', JBool False), (''demoMode'', JBool False),
       (''mainboardPopup'', JBool False)] \<rparr>"

definition display_js :: "display_settings \<Rightarrow> jsval" where
  "display_js d = JObj [(''margins'', margins d), (''colors'', colors d)]"

text \<open>\<^verbatim>\<open>io.on('connection')\<close>: the settings snapshot sent to the new socket.\<close>

definition server_connection :: "string \<Rightarrow> server_state \<Rightarrow> server_state \<times> emission list" where
  "server_connection sid s =
     (s, [Emit (ToSocket sid) ''initial-settings''
            (JObj [(''display'', display_js (displaySettings s)),
                   (''mobile'', JObj (mobileSettings s))])])"

text \<open>\<^verbatim>\<open>socket.on('register-mobile-device')\<close>\<close>

definition server_register_mobile_device ::
  "string \<Rightarrow> jsval \<Rightarrow> server_state \<Rightarrow> error + server_state \<times> emission list" where
  "server_register_mobile_device sid data s =
     (case get_prop data ''name'' of
        Inl e \<Rightarrow> Inl e
      | Inr nm \<Rightarrow> Inr (s,
          [Emit ToAll ''device-connected'' (JObj [(''id'', JStr sid), (''name'', nm)]),
           Emit (ToSocket sid) ''mobile-settings-updated'' (JObj (mobileSettings s))]))"

text \<open>\<^verbatim>\<open>socket.on('camera-stream')\<close>\<close>

definition server_camera_stream :: "string \<Rightarrow> jsval \<Rightarrow> server_state \<Rightarrow> server_state \<times> emission list" where
  "server_camera_stream sid data s =
     (s\<lparr>streams := set_key sid data (streams s)\<rparr>,
      Emit ToAll ''preview-update'' (JObj [(''id'', JStr sid), (''stream'', data)]) #
      (if JStr sid = activeLiveDevice s
       then [Emit ToAll ''arena-update'' (JObj [(''stream'', data)])]
       else []))"

text \<open>\<^verbatim>\<open>socket.on('go-live')\<close>\<close>

definition server_go_live :: "string \<Rightarrow> jsval \<Rightarrow> server_state \<Rightarrow> server_state \<times> emission list" where
  "server_go_live sid deviceId s =
     (s\<lparr>activeLiveDevice := deviceId\<rparr>,
      (case map_get (streams s) deviceId of
         None \<Rightarrow> []
       | Some stream \<Rightarrow>
           if truthy stream then [Emit ToAll ''arena-update'' (JObj [(''stream'', stream)])] else []) @
      [Emit ToAll ''live-device-changed'' deviceId])"

text \<open>\<^verbatim>\<open>socket.on('update-sponsors')\<close>\<close>

definition server_update_sponsors :: "string \<Rightarrow> jsval \<Rightarrow> server_state \<Rightarrow> server_state \<times> emission list" where
  "server_update_sponsors sid sponsors s = (s, [Emit (ToOthers sid) ''update-sponsors'' sponsors])"

text \<open>\<^verbatim>\<open>socket.on('update-display-settings')\<close>\<close>

definition server_update_display_settings ::
  "string \<Rightarrow> jsval \<Rightarrow> server_state \<Rightarrow> error + server_state \<times> emission list" where
  "server_update_display_settings sid settings s =
     (case get_prop settings ''margins'' of
        Inl e \<Rightarrow> Inl e
      | Inr m \<Rightarrow>
          let d1 = (if truthy m then (displaySettings s)\<lparr>margins := m\<rparr> else displaySettings s) in
          (case get_prop settings ''colors'' of
             Inl e \<Rightarrow> Inl e
           | Inr c \<Rightarrow>
               let d2 = (if truthy c then d1\<lparr>colors := c\<rparr> else d1) in
               Inr (s\<lparr>displaySettings := d2\<rparr>,
                    [Emit (ToOthers sid) ''display-settings-updated'' settings])))"

text \<open>\<^verbatim>\<open>socket.on('update-mobile-settings')\<close>\<close>

definition server_update_mobile_settings ::
  "string \<Rightarrow> jsval \<Rightarrow> server_state \<Rightarrow> server_state \<times> emission list" where
  "server_update_mobile_settings sid settings s =
     (s\<lparr>mobileSettings := spread_merge (mobileSettings s) settings\<rparr>,
      [Emit (ToOthers sid) ''mobile-settings-updated'' settings])"

text \<open>\<^verbatim>\<open>socket.on('disconnect')\<close>\<close>

definition server_disconnect :: "string \<Rightarrow> server_state \<Rightarrow> server_state \<times> emission list" where
  "server_disconnect sid s =
     (let s1 = s\<lparr>streams := delete_key sid (streams s)\<rparr> in
      if JStr sid = activeLiveDevice s1
      then (s1\<lparr>activeLiveDevice := JNull\<rparr>, [Emit ToAll ''live-device-changed'' JNull])
      else (s1, []))"

text \<open>
  \<^verbatim>\<open>path.join\<close> of Node (POSIX flavour), which \<^verbatim>\<open>upload-sponsor\<close> calls: the non-empty
  arguments are joined with \<open>/\<close> and the result is normalised, that is, empty and \<open>.\<close>
  segments are dropped and a \<open>..\<close> segment removes the segment before it. An argument
  that is not a string throws a TypeError.
\<close>

fun split_on :: "char \<Rightarrow> string \<Rightarrow> string list" where
  "split_on c [] = [[]]"
| "split_on c (x # xs) =
     (if x = c then [] # split_on c xs
      else (case split_on c xs of [] \<Rightarrow> [[x]] | y # ys \<Rightarrow> (x # y) # ys))"

fun join_with :: "string \<Rightarrow> string list \<Rightarrow> string" where
  "join_with sep [] = []"
| "join_with sep [x] = x"
| "join_with sep (x # y # ys) = x @ sep @ join_with sep (y # ys)"

fun normalizeString :: "bool \<Rightarrow> string list \<Rightarrow> string list \<Rightarrow> string list" where
  "normalizeString allowAboveRoot res [] = rev res"
| "normalizeString allowAboveRoot res (seg # segs) =
     (if seg = [] \<or> seg = ''.'' then normalizeString allowAboveRoot res segs
      else if seg = ''..'' then
        (case res of
           r # rs \<Rightarrow>
             if r \<noteq> ''..'' then normalizeString allowAboveRoot rs segs
             else if allowAboveRoot then normalizeString allowAboveRoot (''..'' # res) segs
             else normalizeString allowAboveRoot res segs
         | [] \<Rightarrow>
             if allowAboveRoot then normalizeString allowAboveRoot [''..''] segs
             else normalizeString allowAboveRoot res segs)
      else normalizeString allowAboveRoot (seg # res) segs)"

definition normalize :: "string \<Rightarrow> string" where
  "normalize p =
     (if p = [] then ''.''
      else
        let isAbsolute = (hd p = CHR ''/'');
            trailingSeparator = (last p = CHR ''/'');
            q = join_with ''/'' (normalizeString (\<not> isAbsolute) [] (split_on CHR ''/'' p))
        in if q = [] then (if isAbsolute then ''/'' else if trailingSeparator then ''./'' else ''.'')
           else (if isAbsolute then ''/'' else []) @ q @ (if trailingSeparator then ''/'' else []))"

fun string_args :: "jsval list \<Rightarrow> error + string list" where
  "string_args [] = Inr []"
| "string_args (JStr a # as) = (case string_args as of Inl e \<Rightarrow> Inl e | Inr bs \<Rightarrow> Inr (a # bs))"
| "string_args (v # as) = Inl TypeError"

definition path_join :: "jsval list \<Rightarrow> error + string" where
  "path_join args =
     (case string_args args of
        Inl e \<Rightarrow> Inl e
      | Inr as \<Rightarrow>
          let joined = join_with ''/'' (filter (\<lambda>a. a \<noteq> []) as)
          in Inr (if joined = [] then ''.'' else normalize joined))"

text \<open>
  A path segment that normalisation keeps as it is: not empty, not \<open>.\<close>, not \<open>..\<close>,
  and without a separator.
\<close>

definition plain_segment :: "string \<Rightarrow> bool" where
  "plain_segment seg = (seg \<noteq> [] \<and> seg \<noteq> ''.'' \<and> seg \<noteq> ''..'' \<and> CHR ''/'' \<notin> set seg)"

text \<open>
  The file system calls a handler makes, in order, whether they return or throw.
  \<open>Base64 t\<close> stands for \<^verbatim>\<open>Buffer.from(t, 'base64')\<close>.
\<close>

datatype buffer = Base64 string

datatype fs_call = MkdirSync string | WriteFileSync string buffer

text \<open>
  The file system as the handler meets it: what \<^verbatim>\<open>fs.existsSync\<close> answers for a path,
  and whether \<^verbatim>\<open>fs.mkdirSync(path, { recursive: true })\<close> and \<^verbatim>\<open>fs.writeFileSync\<close>
  return (\<open>None\<close>) or throw, and then which error: \<open>SystemError ''EISDIR''\<close> when the
  path to write is a directory, \<open>ENOENT\<close> when its directory does not exist, \<open>EACCES\<close>
  and so on.
\<close>

record file_system =
  existsSync :: "string \<Rightarrow> bool"
  mkdirSync :: "string \<Rightarrow> error option"
  writeFileSync :: "string \<Rightarrow> buffer \<Rightarrow> error option"

text \<open>\<^verbatim>\<open>fileData.split(',')[1]\<close>, and the TypeError of \<^verbatim>\<open>Buffer.from(undefined, ...)\<close>.\<close>

fun second_part :: "jsval \<Rightarrow> error + string" where
  "second_part (JStr d) =
     (case split_on CHR '','' d of a # b # rest \<Rightarrow> Inr b | _ \<Rightarrow> Inl TypeError)"
| "second_part v = Inl TypeError"

text \<open>
  \<^verbatim>\<open>socket.on('upload-sponsor')\<close>. \<open>dirname\<close> is \<^verbatim>\<open>__dirname\<close>. The result is the file
  system calls made, and either the error thrown or the emissions: an error thrown by
  \<^verbatim>\<open>path.join\<close>, \<^verbatim>\<open>fs.mkdirSync\<close>, \<^verbatim>\<open>Buffer.from\<close> or \<^verbatim>\<open>fs.writeFileSync\<close> ends the handler
  there, and \<open>sponsor-uploaded\<close> is emitted only after the write has returned.
\<close>

definition server_upload_sponsor ::
  "file_system \<Rightarrow> string \<Rightarrow> string \<Rightarrow> jsval \<Rightarrow> fs_call list \<times> (error + emission list)" where
  "server_upload_sponsor fs dirname sid data =
     (case get_prop data ''fileName'' of
        Inl e \<Rightarrow> ([], Inl e)
      | Inr fileName \<Rightarrow>
     (case get_prop data ''fileData'' of
        Inl e \<Rightarrow> ([], Inl e)
      | Inr fileData \<Rightarrow>
     (case path_join [JStr dirname, JStr ''public'', JStr ''uploads'', fileName] of
        Inl e \<Rightarrow> ([], Inl e)
      | Inr filePath \<Rightarrow>
     (case path_join [JStr dirname, JStr ''public'', JStr ''uploads''] of
        Inl e \<Rightarrow> ([], Inl e)
      | Inr uploads \<Rightarrow>
     (case (if existsSync fs uploads then None else mkdirSync fs uploads) of
        Some e \<Rightarrow> ([MkdirSync uploads], Inl e)
      | None \<Rightarrow>
          let made = (if existsSync fs uploads then [] else [MkdirSync uploads]) in
          (case second_part fileData of
             Inl e \<Rightarrow> (made, Inl e)
           | Inr b64 \<Rightarrow>
               (case writeFileSync fs filePath (Base64 b64) of
                  Some e \<Rightarrow> (made @ [WriteFileSync filePath (Base64 b64)], Inl e)
                | None \<Rightarrow>
                    (case fileName of
                       JStr f \<Rightarrow>
                         (made @ [WriteFileSync filePath (Base64 b64)],
                          Inr [Emit (ToSocket sid) ''sponsor-uploaded''
                                 (JObj [(''url'', JStr (''/uploads/'' @ f))])])
                     | _ \<Rightarrow> (made, Inl TypeError)))))))))"

text \<open>
  The events a socket can send that touch the server's state, and one step of the
  server; \<^verbatim>\<open>upload-sponsor\<close> leaves the state alone and is modelled above.
\<close>

datatype server_event =
    OnConnection
  | OnRegisterMobileDevice jsval
  | OnCameraStream jsval
  | OnGoLive jsval
  | OnUpdateSponsors jsval
  | OnUpdateDisplaySettings jsval
  | OnUpdateMobileSettings jsval
  | OnDisconnect

fun server_step :: "string \<Rightarrow> server_event \<Rightarrow> server_state \<Rightarrow> error + server_state \<times> emission list" where
  "server_step sid OnConnection s = Inr (server_connection sid s)"
| "server_step sid (OnRegisterMobileDevice data) s = server_register_mobile_device sid data s"
| "server_step sid (OnCameraStream data) s = Inr (server_camera_stream sid data s)"
| "server_step sid (OnGoLive deviceId) s = Inr (server_go_live sid deviceId s)"
| "server_step sid (OnUpdateSponsors sponsors) s = Inr (server_update_sponsors sid sponsors s)"
| "server_step sid (OnUpdateDisplaySettings settings) s = server_update_display_settings sid settings s"
| "server_step sid (OnUpdateMobileSettings settings) s = Inr (server_update_mobile_settings sid settings s)"
| "server_step sid OnDisconnect s = Inr (server_disconnect sid s)"

text \<open>
  A run handles the events in order, each to completion, and collects the emissions;
  an uncaught error ends it.
\<close>

fun server_run :: "(string \<times> server_event) list \<Rightarrow> server_state \<Rightarrow> error + server_state \<times> emission list" where
  "server_run [] s = Inr (s, [])"
| "server_run ((sid, ev) # evs) s =
     (case server_step sid ev s of
        Inl e \<Rightarrow> Inl e
      | Inr (s1, out1) \<Rightarrow>
          (case server_run evs s1 of
             Inl e \<Rightarrow> Inl e
           | Inr (s2, out2) \<Rightarrow> Inr (s2, out1 @ out2)))"

section \<open>setup.js: the room-scoped server it generates\<close>

record device =
  type :: string
  name :: jsval
  preview :: jsval

record setup_state =
  connectedDevices :: "(string \<times> device) list"
  rooms :: "(string \<times> string) list"

definition setup_init :: setup_state where
  "setup_init = \<lparr> connectedDevices = [], rooms = [] \<rparr>"

text \<open>\<^verbatim>\<open>socket.join(room)\<close>\<close>

definition join :: "string \<Rightarrow> string \<Rightarrow> setup_state \<Rightarrow> setup_state" where
  "join sid room s = s\<lparr>rooms := List.insert (sid, room) (rooms s)\<rparr>"

definition device_entry :: "string \<times> device \<Rightarrow> jsval" where
  "device_entry p =
     JObj [(''id'', JStr (fst p)), (''preview'', preview (snd p)),
           (''type'', JStr (type (snd p))), (''name'', name (snd p))]"

text \<open>\<^verbatim>\<open>socket.on('control-room-connected')\<close>\<close>

definition setup_control_room_connected :: "string \<Rightarrow> setup_state \<Rightarrow> setup_state \<times> emission list" where
  "setup_control_room_connected sid s =
     (join sid ''control-room'' s,
      [Emit (ToSocket sid) ''device-list-update'' (JArr (map device_entry (connectedDevices s)))])"

text \<open>\<^verbatim>\<open>socket.on('arena-display-connected')\<close>\<close>

definition setup_arena_display_connected :: "string \<Rightarrow> setup_state \<Rightarrow> setup_state \<times> emission list" where
  "setup_arena_display_connected sid s = (join sid ''arena-display'' s, [])"

text \<open>\<^verbatim>\<open>Phone ${n}\<close>\<close>

definition phone :: "nat \<Rightarrow> jsval" where
  "phone n = JStr (''Phone '' @ show_nat n)"

text \<open>
  \<^verbatim>\<open>socket.on('register-mobile-device')\<close>. The stored name is computed from the size of
  the map before the entry is set, the announced name from its size afterwards.
\<close>

definition setup_register_mobile_device ::
  "string \<Rightarrow> jsval \<Rightarrow> setup_state \<Rightarrow> error + setup_state \<times> emission list" where
  "setup_register_mobile_device sid deviceInfo s =
     (case get_prop deviceInfo ''name'' of
        Inl e \<Rightarrow> Inl e
      | Inr nm \<Rightarrow>
          let devices = set_key sid
                \<lparr> type = ''mobile'',
                  name = js_or nm (phone (length (connectedDevices s) + 1)),
                  preview = JNull \<rparr>
                (connectedDevices s)
          in Inr (s\<lparr>connectedDevices := devices\<rparr>,
                  [Emit (ToRoom ''control-room'') ''device-connected''
                     (JObj [(''id'', JStr sid), (''type'', JStr ''mobile''),
                            (''name'', js_or nm (phone (length devices)))])]))"

text \<open>\<^verbatim>\<open>socket.on('camera-access-approved')\<close>\<close>

definition setup_camera_access_approved :: "string \<Rightarrow> setup_state \<Rightarrow> setup_state \<times> emission list" where
  "setup_camera_access_approved sid s = (s, [Emit (ToSocket sid) ''start-preview'' JUndefined])"

text \<open>\<^verbatim>\<open>socket.on('preview-update')\<close>\<close>

definition setup_preview_update :: "string \<Rightarrow> jsval \<Rightarrow> setup_state \<Rightarrow> setup_state \<times> emission list" where
  "setup_preview_update sid imageData s =
     (case map_of (connectedDevices s) sid of
        None \<Rightarrow> (s, [])
      | Some dev \<Rightarrow>
          (s\<lparr>connectedDevices := set_key sid (dev\<lparr>preview := imageData\<rparr>) (connectedDevices s)\<rparr>,
           [Emit (ToRoom ''control-room'') ''preview-update''
              (JObj [(''deviceId'', JStr sid), (''preview'', imageData)])]))"

text \<open>\<^verbatim>\<open>socket.on('go-live')\<close>\<close>

definition setup_go_live :: "string \<Rightarrow> jsval \<Rightarrow> setup_state \<Rightarrow> setup_state \<times> emission list" where
  "setup_go_live sid deviceId s =
     (case map_get (connectedDevices s) deviceId of
        None \<Rightarrow> (s, [])
      | Some dev \<Rightarrow>
          if truthy (preview dev) then
            (s, [Emit (ToRoom ''arena-display'') ''arena-display-update''
                   (JObj [(''content'', preview dev),
                          (''overlay'', JObj [(''sponsorLogo'', JStr ''/images/dodge-ram-logo.png''),
                                              (''eventTitle'', JStr ''RENO RODEO'')])]),
                 Emit ToAll ''device-is-live'' deviceId])
          else (s, []))"

text \<open>\<^verbatim>\<open>socket.on('disconnect')\<close>\<close>

definition setup_disconnect :: "string \<Rightarrow> setup_state \<Rightarrow> setup_state \<times> emission list" where
  "setup_disconnect sid s =
     (if map_of (connectedDevices s) sid \<noteq> None
      then (s\<lparr>connectedDevices := delete_key sid (connectedDevices s)\<rparr>,
            [Emit (ToRoom ''control-room'') ''device-disconnected'' (JStr sid)])
      else (s, []))"

text \<open>The events a socket can send to the generated server, and one step of the server.\<close>

datatype setup_event =
    ControlRoomConnected
  | ArenaDisplayConnected
  | RegisterMobileDevice jsval
  | CameraAccessApproved
  | PreviewUpdate jsval
  | GoLive jsval
  | Disconnect

fun setup_step :: "string \<Rightarrow> setup_event \<Rightarrow> setup_state \<Rightarrow> error + setup_state \<times> emission list" where
  "setup_step sid ControlRoomConnected s = Inr (setup_control_room_connected sid s)"
| "setup_step sid ArenaDisplayConnected s = Inr (setup_arena_display_connected sid s)"
| "setup_step sid (RegisterMobileDevice deviceInfo) s = setup_register_mobile_device sid deviceInfo s"
| "setup_step sid CameraAccessApproved s = Inr (setup_camera_access_approved sid s)"
| "setup_step sid (PreviewUpdate imageData) s = Inr (setup_preview_update sid imageData s)"
| "setup_step sid (GoLive deviceId) s = Inr (setup_go_live sid deviceId s)"
| "setup_step sid Disconnect s = Inr (setup_disconnect sid s)"

text \<open>A run of the generated server, as for the other one.\<close>

fun setup_run :: "(string \<times> setup_event) list \<Rightarrow> setup_state \<Rightarrow> error + setup_state \<times> emission list" where
  "setup_run [] s = Inr (s, [])"
| "setup_run ((sid, ev) # evs) s =
     (case setup_step sid ev s of
        Inl e \<Rightarrow> Inl e
      | Inr (s1, out1) \<Rightarrow>
          (case setup_run evs s1 of
             Inl e \<Rightarrow> Inl e
           | Inr (s2, out2) \<Rightarrow> Inr (s2, out1 @ out2)))"

section \<open>Facts about the maps\<close>

lemma map_of_set_key: "map_of (set_key k v m) k = Some v"
  by (induction m) auto

lemma map_of_set_key_other: "k' \<noteq> k \<Longrightarrow> map_of (set_key k v m) k' = map_of m k'"
  by (induction m) auto

lemma keys_set_key: "fst ` set (set_key k v m) = insert k (fst ` set m)"
  by (induction m) auto

lemma keys_delete_key: "fst ` set (delete_key k m) = fst ` set m - {k}"
  by (auto simp: delete_key_def)

lemma set_key_twice: "set_key k v (set_key k w m) = set_key k v m"
  by (induction m) auto

lemma phone_1: "phone (Suc 0) = JStr ''Phone 1''"
  by code_simp

lemma phone_2: "phone (Suc (Suc 0)) = JStr ''Phone 2''"
  by code_simp

section \<open>Going live\<close>

text \<open>
  C1, as the claim states it, fails on server.js: from the initial state, where no frame
  of socket \<open>a\<close> is stored, \<open>go-live(a)\<close> makes \<open>a\<close> the live device and tells every
  socket so.
\<close>

theorem go_live_no_preview_counterexample:
  "map_get (streams server_init) (JStr ''a'') = None \<and>
   activeLiveDevice (fst (server_go_live ''c'' (JStr ''a'') server_init)) \<noteq> activeLiveDevice server_init \<and>
   snd (server_go_live ''c'' (JStr ''a'') server_init) = [Emit ToAll ''live-device-changed'' (JStr ''a'')]"
  by (simp add: server_go_live_def server_init_def)

text \<open>
  C1, amended. In the server that setup.js generates, \<open>go-live\<close> for an id that is not
  registered, or whose preview is still null (or otherwise falsy), changes nothing and
  emits nothing; for a registered id with a preview it sends that preview to the
  arena-display room and \<open>device-is-live\<close> to everyone. In server.js, \<open>go-live\<close> for an
  id with no stored frame sends no \<open>arena-update\<close>, but it does set the live device to
  that id and broadcasts \<open>live-device-changed\<close>.
\<close>

theorem go_live_without_preview:
  "(map_get (connectedDevices s) deviceId = None \<longrightarrow> setup_go_live sid deviceId s = (s, [])) \<and>
   (\<forall>dev. map_get (connectedDevices s) deviceId = Some dev \<and> \<not> truthy (preview dev) \<longrightarrow>
      setup_go_live sid deviceId s = (s, [])) \<and>
   (\<forall>dev. map_get (connectedDevices s) deviceId = Some dev \<and> truthy (preview dev) \<longrightarrow>
      setup_go_live sid deviceId s =
        (s, [Emit (ToRoom ''arena-display'') ''arena-display-update''
               (JObj [(''content'', preview dev),
                      (''overlay'', JObj [(''sponsorLogo'', JStr ''/images/dodge-ram-logo.png''),
                                          (''eventTitle'', JStr ''RENO RODEO'')])]),
             Emit ToAll ''device-is-live'' deviceId])) \<and>
   (map_get (streams t) deviceId = None \<longrightarrow>
      server_go_live sid deviceId t =
        (t\<lparr>activeLiveDevice := deviceId\<rparr>, [Emit ToAll ''live-device-changed'' deviceId]))"
  by (simp add: setup_go_live_def server_go_live_def)

theorem go_live_without_preview_witness:
  "map_get (connectedDevices setup_init) (JStr ''a'') = None \<and>
   setup_go_live ''c'' (JStr ''a'') setup_init = (setup_init, []) \<and>
   setup_go_live ''c'' (JStr ''a'')
     \<lparr>connectedDevices = [(''a'', \<lparr>type = ''mobile'', name = JStr ''Cowboy1'', preview = JNull\<rparr>)],
      rooms = []\<rparr> =
     (\<lparr>connectedDevices = [(''a'', \<lparr>type = ''mobile'', name = JStr ''Cowboy1'', preview = JNull\<rparr>)],
       rooms = []\<rparr>, []) \<and>
   snd (setup_go_live ''c'' (JStr ''a'')
     \<lparr>connectedDevices = [(''a'', \<lparr>type = ''mobile'', name = JStr ''Cowboy1'', preview = JStr ''frameA''\<rparr>)],
      rooms = []\<rparr>) =
     [Emit (ToRoom ''arena-display'') ''arena-display-update''
        (JObj [(''content'', JStr ''frameA''),
               (''overlay'', JObj [(''sponsorLogo'', JStr ''/images/dodge-ram-logo.png''),
                                   (''eventTitle'', JStr ''RENO RODEO'')])]),
      Emit ToAll ''device-is-live'' (JStr ''a'')] \<and>
   map_get (streams server_init) (JStr ''a'') = None \<and>
   server_go_live ''c'' (JStr ''a'') server_init =
     (server_init\<lparr>activeLiveDevice := JStr ''a''\<rparr>, [Emit ToAll ''live-device-changed'' (JStr ''a'')])"
  using
    go_live_without_preview [of setup_init "JStr ''a''" "''c''" server_init]
    go_live_without_preview
      [of "\<lparr>connectedDevices = [(''a'', \<lparr>type = ''mobile'', name = JStr ''Cowboy1'', preview = JNull\<rparr>)],
           rooms = []\<rparr>" "JStr ''a''" "''c''" server_init]
    go_live_without_preview
      [of "\<lparr>connectedDevices = [(''a'', \<lparr>type = ''mobile'', name = JStr ''Cowboy1'', preview = JStr ''frameA''\<rparr>)],
           rooms = []\<rparr>" "JStr ''a''" "''c''" server_init]
  by (simp add: setup_init_def server_init_def)

section \<open>Disconnecting\<close>

text \<open>
  C2. In server.js, whatever the state, the disconnect of the socket that is the live
  device resets the live device to null and emits \<open>live-device-changed\<close> with null to
  every socket; the disconnect of any other socket leaves the live device as it was
  and emits nothing.
\<close>

theorem disconnect_live_selection:
  "(activeLiveDevice s = JStr sid \<longrightarrow>
      activeLiveDevice (fst (server_disconnect sid s)) = JNull \<and>
      snd (server_disconnect sid s) = [Emit ToAll ''live-device-changed'' JNull] \<and>
      (\<forall>rooms t. list_all (receives rooms t) (snd (server_disconnect sid s)))) \<and>
   (activeLiveDevice s \<noteq> JStr sid \<longrightarrow>
      activeLiveDevice (fst (server_disconnect sid s)) = activeLiveDevice s \<and>
      snd (server_disconnect sid s) = [])"
  by (simp add: server_disconnect_def Let_def)

theorem disconnect_live_selection_witness:
  "activeLiveDevice (server_init\<lparr>activeLiveDevice := JStr ''a''\<rparr>) = JStr ''a'' \<and>
   activeLiveDevice (fst (server_disconnect ''a'' (server_init\<lparr>activeLiveDevice := JStr ''a''\<rparr>))) = JNull \<and>
   snd (server_disconnect ''a'' (server_init\<lparr>activeLiveDevice := JStr ''a''\<rparr>)) =
     [Emit ToAll ''live-device-changed'' JNull] \<and>
   activeLiveDevice (server_init\<lparr>activeLiveDevice := JStr ''a''\<rparr>) \<noteq> JStr ''b'' \<and>
   activeLiveDevice (fst (server_disconnect ''b'' (server_init\<lparr>activeLiveDevice := JStr ''a''\<rparr>))) = JStr ''a'' \<and>
   snd (server_disconnect ''b'' (server_init\<lparr>activeLiveDevice := JStr ''a''\<rparr>)) = []"
  using disconnect_live_selection [of "server_init\<lparr>activeLiveDevice := JStr ''a''\<rparr>" "''a''"]
    disconnect_live_selection [of "server_init\<lparr>activeLiveDevice := JStr ''a''\<rparr>" "''b''"]
  by simp

section \<open>Frames\<close>

text \<open>
  C3. In server.js, a \<open>camera-stream\<close> frame from a socket is stored as that socket's
  latest frame and sent as \<open>preview-update\<close> to every socket, the control rooms among
  them; an \<open>arena-update\<close> is emitted in the same step exactly when the sender is the
  live device, and it then carries the same frame to every socket, the arena displays
  among them.
\<close>

theorem camera_stream_pass_through:
  "map_of (streams (fst (server_camera_stream sid data s))) sid = Some data \<and>
   Emit ToAll ''preview-update'' (JObj [(''id'', JStr sid), (''stream'', data)])
     \<in> set (snd (server_camera_stream sid data s)) \<and>
   (\<forall>rooms t. receives rooms t
      (Emit ToAll ''preview-update'' (JObj [(''id'', JStr sid), (''stream'', data)]))) \<and>
   ((\<exists>aud p. Emit aud ''arena-update'' p \<in> set (snd (server_camera_stream sid data s)))
      = (activeLiveDevice s = JStr sid)) \<and>
   ((Emit ToAll ''arena-update'' (JObj [(''stream'', data)])
       \<in> set (snd (server_camera_stream sid data s)))
      = (activeLiveDevice s = JStr sid))"
  by (auto simp: server_camera_stream_def map_of_set_key)

section \<open>Frames from unknown senders\<close>

lemma setup_run_previews_unknown:
  "\<forall>sid \<in> fst ` set frames. map_of (connectedDevices s) sid = None \<Longrightarrow>
   setup_run (map (\<lambda>(sid, d). (sid, PreviewUpdate d)) frames) s = Inr (s, [])"
  by (induction frames) (auto simp: setup_preview_update_def)

text \<open>
  C5. In the server that setup.js generates, a \<open>preview-update\<close> from a socket that is
  not in \<open>connectedDevices\<close> is a silent no-op: the state (so the registry and every
  stored preview) is unchanged and nothing is emitted; the same holds for any sequence
  of such updates.
\<close>

theorem preview_from_unknown_sender:
  "(map_of (connectedDevices s) sid = None \<longrightarrow> setup_preview_update sid imageData s = (s, [])) \<and>
   ((\<forall>sid \<in> fst ` set frames. map_of (connectedDevices s) sid = None) \<longrightarrow>
      setup_run (map (\<lambda>(sid, d). (sid, PreviewUpdate d)) frames) s = Inr (s, []))"
  using setup_run_previews_unknown [of frames s] by (simp add: setup_preview_update_def)

theorem preview_from_unknown_sender_witness:
  "map_of (connectedDevices setup_init) ''x'' = None \<and>
   map_of (connectedDevices setup_init) ''y'' = None \<and>
   setup_preview_update ''x'' (JStr ''frameA'') setup_init = (setup_init, []) \<and>
   setup_run [(''x'', PreviewUpdate (JStr ''frameA'')), (''y'', PreviewUpdate (JStr ''frameB''))]
     setup_init = Inr (setup_init, [])"
proof -
  let ?frames = "[(''x'', JStr ''frameA''), (''y'', JStr ''frameB'')]"
  have h1: "map_of (connectedDevices setup_init) ''x'' = None"
    by (simp add: setup_init_def)
  have h2: "map_of (connectedDevices setup_init) ''y'' = None"
    by (simp add: setup_init_def)
  have hall: "\<forall>sid \<in> fst ` set ?frames. map_of (connectedDevices setup_init) sid = None"
    using h1 h2 by simp
  have m: "map (\<lambda>(sid, d). (sid, PreviewUpdate d)) ?frames =
      [(''x'', PreviewUpdate (JStr ''frameA'')), (''y'', PreviewUpdate (JStr ''frameB''))]"
    by simp
  note t = preview_from_unknown_sender [of setup_init "''x''" "JStr ''frameA''" ?frames]
  from t h1 have a: "setup_preview_update ''x'' (JStr ''frameA'') setup_init = (setup_init, [])"
    by blast
  from t hall have "setup_run (map (\<lambda>(sid, d). (sid, PreviewUpdate d)) ?frames) setup_init =
      Inr (setup_init, [])"
    by blast
  then have b: "setup_run [(''x'', PreviewUpdate (JStr ''frameA'')), (''y'', PreviewUpdate (JStr ''frameB''))]
      setup_init = Inr (setup_init, [])"
    by (simp only: m)
  show ?thesis using h1 h2 a b by blast
qed

section \<open>The control room's snapshot\<close>

text \<open>
  C4. In the server that setup.js generates, a socket that sends
  \<open>control-room-connected\<close> is sent, in that same step and to it alone, one
  \<open>device-list-update\<close> holding, for every device in \<open>connectedDevices\<close>, an entry with
  its id, its latest stored preview, its type and its name. In particular, after two
  distinct sockets registered as mobile devices with names, the snapshot has exactly
  two entries, with those names and null previews; and when the first of them has sent
  a frame in between, its entry carries that frame.
\<close>

theorem control_room_snapshot:
  "snd (setup_control_room_connected c s) =
     [Emit (ToSocket c) ''device-list-update''
        (JArr (map (\<lambda>p. JObj [(''id'', JStr (fst p)), (''preview'', preview (snd p)),
                               (''type'', JStr (type (snd p))), (''name'', name (snd p))])
                 (connectedDevices s)))] \<and>
   (a \<noteq> b \<and> truthy n1 \<and> truthy n2 \<longrightarrow>
      setup_run [(a, RegisterMobileDevice (JObj [(''name'', n1)])),
                 (b, RegisterMobileDevice (JObj [(''name'', n2)])),
                 (c, ControlRoomConnected)] setup_init =
        Inr (\<lparr>connectedDevices =
                [(a, \<lparr>type = ''mobile'', name = n1, preview = JNull\<rparr>),
                 (b, \<lparr>type = ''mobile'', name = n2, preview = JNull\<rparr>)],
              rooms = [(c, ''control-room'')]\<rparr>,
             [Emit (ToRoom ''control-room'') ''device-connected''
                (JObj [(''id'', JStr a), (''type'', JStr ''mobile''), (''name'', n1)]),
              Emit (ToRoom ''control-room'') ''device-connected''
                (JObj [(''id'', JStr b), (''type'', JStr ''mobile''), (''name'', n2)]),
              Emit (ToSocket c) ''device-list-update''
                (JArr [JObj [(''id'', JStr a), (''preview'', JNull), (''type'', JStr ''mobile''),
                             (''name'', n1)],
                       JObj [(''id'', JStr b), (''preview'', JNull), (''type'', JStr ''mobile''),
                             (''name'', n2)]])]) \<and>
      setup_run [(a, RegisterMobileDevice (JObj [(''name'', n1)])),
                 (b, RegisterMobileDevice (JObj [(''name'', n2)])),
                 (a, PreviewUpdate f),
                 (c, ControlRoomConnected)] setup_init =
        Inr (\<lparr>connectedDevices =
                [(a, \<lparr>type = ''mobile'', name = n1, preview = f\<rparr>),
                 (b, \<lparr>type = ''mobile'', name = n2, preview = JNull\<rparr>)],
              rooms = [(c, ''control-room'')]\<rparr>,
             [Emit (ToRoom ''control-room'') ''device-connected''
                (JObj [(''id'', JStr a), (''type'', JStr ''mobile''), (''name'', n1)]),
              Emit (ToRoom ''control-room'') ''device-connected''
                (JObj [(''id'', JStr b), (''type'', JStr ''mobile''), (''name'', n2)]),
              Emit (ToRoom ''control-room'') ''preview-update''
                (JObj [(''deviceId'', JStr a), (''preview'', f)]),
              Emit (ToSocket c) ''device-list-update''
                (JArr [JObj [(''id'', JStr a), (''preview'', f), (''type'', JStr ''mobile''),
                             (''name'', n1)],
                       JObj [(''id'', JStr b), (''preview'', JNull), (''type'', JStr ''mobile''),
                             (''name'', n2)]])]))"
  by (simp add: setup_control_room_connected_def setup_register_mobile_device_def setup_init_def
      setup_preview_update_def join_def device_entry_def js_or_def Let_def)

theorem control_room_snapshot_witness:
  "''m1'' \<noteq> ''m2'' \<and> truthy (JStr ''Cowboy1'') \<and> truthy (JStr ''Cowboy2'') \<and>
   snd (setup_control_room_connected ''cr''
     \<lparr>connectedDevices =
        [(''m1'', \<lparr>type = ''mobile'', name = JStr ''Cowboy1'', preview = JStr ''frameA''\<rparr>)],
      rooms = []\<rparr>) =
     [Emit (ToSocket ''cr'') ''device-list-update''
        (JArr [JObj [(''id'', JStr ''m1''), (''preview'', JStr ''frameA''), (''type'', JStr ''mobile''),
                     (''name'', JStr ''Cowboy1'')]])] \<and>
   setup_run [(''m1'', RegisterMobileDevice (JObj [(''name'', JStr ''Cowboy1'')])),
              (''m2'', RegisterMobileDevice (JObj [(''name'', JStr ''Cowboy2'')])),
              (''cr'', ControlRoomConnected)] setup_init =
     Inr (\<lparr>connectedDevices =
             [(''m1'', \<lparr>type = ''mobile'', name = JStr ''Cowboy1'', preview = JNull\<rparr>),
              (''m2'', \<lparr>type = ''mobile'', name = JStr ''Cowboy2'', preview = JNull\<rparr>)],
           rooms = [(''cr'', ''control-room'')]\<rparr>,
          [Emit (ToRoom ''control-room'') ''device-connected''
             (JObj [(''id'', JStr ''m1''), (''type'', JStr ''mobile''), (''name'', JStr ''Cowboy1'')]),
           Emit (ToRoom ''control-room'') ''device-connected''
             (JObj [(''id'', JStr ''m2''), (''type'', JStr ''mobile''), (''name'', JStr ''Cowboy2'')]),
           Emit (ToSocket ''cr'') ''device-list-update''
             (JArr [JObj [(''id'', JStr ''m1''), (''preview'', JNull), (''type'', JStr ''mobile''),
                          (''name'', JStr ''Cowboy1'')],
                    JObj [(''id'', JStr ''m2''), (''preview'', JNull), (''type'', JStr ''mobile''),
                          (''name'', JStr ''Cowboy2'')]])]) \<and>
   setup_run [(''m1'', RegisterMobileDevice (JObj [(''name'', JStr ''Cowboy1'')])),
              (''m2'', RegisterMobileDevice (JObj [(''name'', JStr ''Cowboy2'')])),
              (''m1'', PreviewUpdate (JStr ''frameA'')),
              (''cr'', ControlRoomConnected)] setup_init =
     Inr (\<lparr>connectedDevices =
             [(''m1'', \<lparr>type = ''mobile'', name = JStr ''Cowboy1'', preview = JStr ''frameA''\<rparr>),
              (''m2'', \<lparr>type = ''mobile'', name = JStr ''Cowboy2'', preview = JNull\<rparr>)],
           rooms = [(''cr'', ''control-room'')]\<rparr>,
          [Emit (ToRoom ''control-room'') ''device-connected''
             (JObj [(''id'', JStr ''m1''), (''type'', JStr ''mobile''), (''name'', JStr ''Cowboy1'')]),
           Emit (ToRoom ''control-room'') ''device-connected''
             (JObj [(''id'', JStr ''m2''), (''type'', JStr ''mobile''), (''name'', JStr ''Cowboy2'')]),
           Emit (ToRoom ''control-room'') ''preview-update''
             (JObj [(''deviceId'', JStr ''m1''), (''preview'', JStr ''frameA'')]),
           Emit (ToSocket ''cr'') ''device-list-update''
             (JArr [JObj [(''id'', JStr ''m1''), (''preview'', JStr ''frameA''), (''type'', JStr ''mobile''),
                          (''name'', JStr ''Cowboy1'')],
                    JObj [(''id'', JStr ''m2''), (''preview'', JNull), (''type'', JStr ''mobile''),
                          (''name'', JStr ''Cowboy2'')]])])"
proof -
  have h: "''m1'' \<noteq> ''m2'' \<and> truthy (JStr ''Cowboy1'') \<and> truthy (JStr ''Cowboy2'')"
    by simp
  note t = control_room_snapshot
      [of "''cr''" _ "''m1''" "''m2''" "JStr ''Cowboy1''" "JStr ''Cowboy2''" "JStr ''frameA''"]
  note g = t [THEN conjunct1]
  note r = t [THEN conjunct2, rule_format, OF h]
  have e: "snd (setup_control_room_connected ''cr''
     \<lparr>connectedDevices =
        [(''m1'', \<lparr>type = ''mobile'', name = JStr ''Cowboy1'', preview = JStr ''frameA''\<rparr>)],
      rooms = []\<rparr>) =
     [Emit (ToSocket ''cr'') ''device-list-update''
        (JArr [JObj [(''id'', JStr ''m1''), (''preview'', JStr ''frameA''), (''type'', JStr ''mobile''),
                     (''name'', JStr ''Cowboy1'')]])]"
    using g [of "\<lparr>connectedDevices =
        [(''m1'', \<lparr>type = ''mobile'', name = JStr ''Cowboy1'', preview = JStr ''frameA''\<rparr>)],
      rooms = []\<rparr>"]
    by simp
  show ?thesis
    by (intro conjI h [THEN conjunct1] h [THEN conjunct2, THEN conjunct1]
        h [THEN conjunct2, THEN conjunct2] e r [THEN conjunct1] r [THEN conjunct2])
qed

section \<open>Removal of a disconnected device\<close>

lemma setup_step_keys:
  assumes "setup_step t ev s = Inr (s', out)"
  shows "fst ` set (connectedDevices s') \<subseteq> insert t (fst ` set (connectedDevices s))"
proof (cases ev)
  case ControlRoomConnected
  with assms have "connectedDevices s' = connectedDevices s"
    by (auto simp: setup_control_room_connected_def join_def)
  then show ?thesis by auto
next
  case ArenaDisplayConnected
  with assms have "connectedDevices s' = connectedDevices s"
    by (auto simp: setup_arena_display_connected_def join_def)
  then show ?thesis by auto
next
  case (RegisterMobileDevice deviceInfo)
  with assms obtain v where "connectedDevices s' = set_key t v (connectedDevices s)"
    by (auto simp: setup_register_mobile_device_def Let_def split: sum.splits)
  then show ?thesis by (simp add: keys_set_key)
next
  case CameraAccessApproved
  with assms have "connectedDevices s' = connectedDevices s"
    by (auto simp: setup_camera_access_approved_def)
  then show ?thesis by auto
next
  case (PreviewUpdate imageData)
  with assms have "connectedDevices s' = connectedDevices s \<or>
      (\<exists>v. connectedDevices s' = set_key t v (connectedDevices s))"
    by (auto simp: setup_preview_update_def split: option.splits)
  then show ?thesis
  proof
    assume "connectedDevices s' = connectedDevices s"
    then show ?thesis by auto
  next
    assume "\<exists>v. connectedDevices s' = set_key t v (connectedDevices s)"
    then obtain v where e: "connectedDevices s' = set_key t v (connectedDevices s)" by blast
    show ?thesis by (simp add: e keys_set_key)
  qed
next
  case (GoLive deviceId)
  with assms have "connectedDevices s' = connectedDevices s"
    by (auto simp: setup_go_live_def split: option.splits if_splits)
  then show ?thesis by auto
next
  case Disconnect
  with assms have "connectedDevices s' = connectedDevices s \<or>
      connectedDevices s' = delete_key t (connectedDevices s)"
    by (auto simp: setup_disconnect_def split: if_splits)
  then show ?thesis
  proof
    assume "connectedDevices s' = connectedDevices s"
    then show ?thesis by auto
  next
    assume e: "connectedDevices s' = delete_key t (connectedDevices s)"
    show ?thesis by (simp add: e keys_delete_key subset_insertI2)
  qed
qed

lemma setup_step_keeps_absent:
  assumes "t \<noteq> sid" and "sid \<notin> fst ` set (connectedDevices s)"
    and "setup_step t ev s = Inr (s', out)"
  shows "sid \<notin> fst ` set (connectedDevices s')"
  using assms setup_step_keys [of t ev s s' out] by blast

lemma setup_run_keeps_absent:
  "sid \<notin> fst ` set evs \<Longrightarrow> sid \<notin> fst ` set (connectedDevices s) \<Longrightarrow>
   setup_run evs s = Inr (s', out) \<Longrightarrow> sid \<notin> fst ` set (connectedDevices s')"
proof (induction evs arbitrary: s out)
  case Nil
  then show ?case by simp
next
  case (Cons p evs)
  obtain t ev where p: "p = (t, ev)" by (cases p)
  from Cons.prems(3) p obtain s1 out1 s2 out2 where
    st: "setup_step t ev s = Inr (s1, out1)" and rn: "setup_run evs s1 = Inr (s2, out2)"
    and eq: "s' = s2"
    by (auto split: sum.splits prod.splits)
  from Cons.prems(1) p have "t \<noteq> sid" and rest: "sid \<notin> fst ` set evs" by auto
  with Cons.prems(2) st have "sid \<notin> fst ` set (connectedDevices s1)"
    using setup_step_keeps_absent by blast
  with Cons.IH rest rn eq show ?case by blast
qed

lemma device_entry_id: "get_prop (device_entry p) ''id'' = Inr (JStr (fst p))"
  by (simp add: device_entry_def)

text \<open>
  C8. In the server that setup.js generates, the disconnect of a socket that is in
  \<open>connectedDevices\<close> emits \<open>device-disconnected\<close> with its id to the control-room room
  (the sockets that announced themselves as control rooms) and removes its entry; as
  long as the events that follow come from other sockets, the id stays out of the
  registry and out of every device list built from it.
\<close>

theorem disconnect_removes_session:
  assumes "map_of (connectedDevices s) sid \<noteq> None"
  shows "snd (setup_disconnect sid s) =
           [Emit (ToRoom ''control-room'') ''device-disconnected'' (JStr sid)] \<and>
         (\<forall>t. receives (rooms s) t (Emit (ToRoom ''control-room'') ''device-disconnected'' (JStr sid))
               = ((t, ''control-room'') \<in> set (rooms s))) \<and>
         map_of (connectedDevices (fst (setup_disconnect sid s))) sid = None \<and>
         (\<forall>evs s' out. sid \<notin> fst ` set evs \<and>
              setup_run evs (fst (setup_disconnect sid s)) = Inr (s', out) \<longrightarrow>
              map_of (connectedDevices s') sid = None \<and>
              (\<forall>e \<in> set (connectedDevices s'). get_prop (device_entry e) ''id'' \<noteq> Inr (JStr sid)))"
proof -
  let ?s1 = "fst (setup_disconnect sid s)"
  have absent: "sid \<notin> fst ` set (connectedDevices ?s1)"
    using assms by (simp add: setup_disconnect_def keys_delete_key)
  have later: "sid \<notin> fst ` set (connectedDevices s')"
    if "sid \<notin> fst ` set evs" and "setup_run evs ?s1 = Inr (s', out)" for evs s' out
    using that absent setup_run_keeps_absent by blast
  have listed: "\<forall>e \<in> set (connectedDevices s'). get_prop (device_entry e) ''id'' \<noteq> Inr (JStr sid)"
    if "sid \<notin> fst ` set (connectedDevices s')" for s'
    using that by (auto simp: device_entry_id)
  have c1: "snd (setup_disconnect sid s) =
      [Emit (ToRoom ''control-room'') ''device-disconnected'' (JStr sid)]"
    using assms by (simp add: setup_disconnect_def)
  have c2: "\<forall>t. receives (rooms s) t (Emit (ToRoom ''control-room'') ''device-disconnected'' (JStr sid))
               = ((t, ''control-room'') \<in> set (rooms s))"
    by simp
  have c3: "map_of (connectedDevices ?s1) sid = None"
    using absent by (simp add: map_of_eq_None_iff)
  have c4: "\<forall>evs s' out. sid \<notin> fst ` set evs \<and> setup_run evs ?s1 = Inr (s', out) \<longrightarrow>
              map_of (connectedDevices s') sid = None \<and>
              (\<forall>e \<in> set (connectedDevices s'). get_prop (device_entry e) ''id'' \<noteq> Inr (JStr sid))"
  proof (intro allI impI)
    fix evs s' out
    assume h: "sid \<notin> fst ` set evs \<and> setup_run evs ?s1 = Inr (s', out)"
    then have "sid \<notin> fst ` set (connectedDevices s')" using later by blast
    then show "map_of (connectedDevices s') sid = None \<and>
              (\<forall>e \<in> set (connectedDevices s'). get_prop (device_entry e) ''id'' \<noteq> Inr (JStr sid))"
      using listed by (simp add: map_of_eq_None_iff)
  qed
  show ?thesis
    using c1 c2 c3 c4 by blast
qed

theorem disconnect_removes_session_witness:
  "map_of (connectedDevices
      \<lparr>connectedDevices = [(''a'', \<lparr>type = ''mobile'', name = JStr ''Cowboy1'', preview = JNull\<rparr>)],
       rooms = [(''cr'', ''control-room'')]\<rparr>) ''a'' \<noteq> None \<and>
   snd (setup_disconnect ''a''
      \<lparr>connectedDevices = [(''a'', \<lparr>type = ''mobile'', name = JStr ''Cowboy1'', preview = JNull\<rparr>)],
       rooms = [(''cr'', ''control-room'')]\<rparr>) =
     [Emit (ToRoom ''control-room'') ''device-disconnected'' (JStr ''a'')] \<and>
   receives [(''cr'', ''control-room'')] ''cr''
     (Emit (ToRoom ''control-room'') ''device-disconnected'' (JStr ''a'')) \<and>
   ''a'' \<notin> fst ` set [(''b'', PreviewUpdate (JStr ''frameB''))] \<and>
   setup_run [(''b'', PreviewUpdate (JStr ''frameB''))]
     (fst (setup_disconnect ''a''
        \<lparr>connectedDevices = [(''a'', \<lparr>type = ''mobile'', name = JStr ''Cowboy1'', preview = JNull\<rparr>)],
         rooms = [(''cr'', ''control-room'')]\<rparr>)) =
     Inr (\<lparr>connectedDevices = [], rooms = [(''cr'', ''control-room'')]\<rparr>, []) \<and>
   map_of (connectedDevices \<lparr>connectedDevices = [], rooms = [(''cr'', ''control-room'')]\<rparr>) ''a'' = None"
proof -
  let ?S = "\<lparr>connectedDevices = [(''a'', \<lparr>type = ''mobile'', name = JStr ''Cowboy1'', preview = JNull\<rparr>)],
       rooms = [(''cr'', ''control-room'')]\<rparr>"
  have h: "map_of (connectedDevices ?S) ''a'' \<noteq> None" by simp
  have r: "setup_run [(''b'', PreviewUpdate (JStr ''frameB''))] (fst (setup_disconnect ''a'' ?S)) =
      Inr (\<lparr>connectedDevices = [], rooms = [(''cr'', ''control-room'')]\<rparr>, [])"
    by (simp add: setup_disconnect_def delete_key_def setup_preview_update_def)
  have n: "''a'' \<notin> fst ` set [(''b'', PreviewUpdate (JStr ''frameB''))]" by simp
  from disconnect_removes_session [OF h] n r
  have "map_of (connectedDevices \<lparr>connectedDevices = [], rooms = [(''cr'', ''control-room'')]\<rparr>) ''a'' = None"
    by blast
  with disconnect_removes_session [OF h] h n r show ?thesis by simp
qed

section \<open>The settings snapshot of a new connection\<close>

lemma server_run_append:
  "server_run (xs @ ys) s =
     (case server_run xs s of
        Inl e \<Rightarrow> Inl e
      | Inr (s1, out1) \<Rightarrow>
          (case server_run ys s1 of Inl e \<Rightarrow> Inl e | Inr (s2, out2) \<Rightarrow> Inr (s2, out1 @ out2)))"
  by (induction xs arbitrary: s) (auto split: sum.splits prod.splits)

text \<open>
  C9. In server.js, a new connection is sent \<open>initial-settings\<close> with the display
  settings and the mobile settings as they are stored at that moment, whatever events
  of whatever sockets led to that state; the emission goes to the new socket only,
  and the state is unchanged.
\<close>

theorem connection_settings_snapshot:
  "server_connection sid s =
     (s, [Emit (ToSocket sid) ''initial-settings''
            (JObj [(''display'', JObj [(''margins'', margins (displaySettings s)),
                                       (''colors'', colors (displaySettings s))]),
                   (''mobile'', JObj (mobileSettings s))])]) \<and>
   (\<forall>rooms. list_all (receives rooms sid) (snd (server_connection sid s))) \<and>
   (\<forall>rooms t. t \<noteq> sid \<longrightarrow> \<not> list_ex (receives rooms t) (snd (server_connection sid s))) \<and>
   (\<forall>evs s' out. server_run evs server_init = Inr (s', out) \<longrightarrow>
      server_run (evs @ [(sid, OnConnection)]) server_init =
        Inr (s', out @ [Emit (ToSocket sid) ''initial-settings''
            (JObj [(''display'', JObj [(''margins'', margins (displaySettings s')),
                                       (''colors'', colors (displaySettings s'))]),
                   (''mobile'', JObj (mobileSettings s'))])]))"
  by (simp add: server_connection_def display_js_def server_run_append)


theorem connection_settings_snapshot_witness:
  "''o'' \<noteq> ''n'' \<and>
   \<not> list_ex (receives [] ''o'') (snd (server_connection ''n'' server_init)) \<and>
   server_run [(''a'', OnUpdateMobileSettings (JObj [(''demoMode'', JBool True)]))] server_init =
     Inr (server_init\<lparr>mobileSettings := [(''cameraFlip'', JBool False), (''demoMode'', JBool True),
            (''mainboardPopup'', JBool False)]\<rparr>,
          [Emit (ToOthers ''a'') ''mobile-settings-updated'' (JObj [(''demoMode'', JBool True)])]) \<and>
   server_run [(''a'', OnUpdateMobileSettings (JObj [(''demoMode'', JBool True)])), (''n'', OnConnection)]
     server_init =
     Inr (server_init\<lparr>mobileSettings := [(''cameraFlip'', JBool False), (''demoMode'', JBool True),
            (''mainboardPopup'', JBool False)]\<rparr>,
          [Emit (ToOthers ''a'') ''mobile-settings-updated'' (JObj [(''demoMode'', JBool True)]),
           Emit (ToSocket ''n'') ''initial-settings''
            (JObj [(''display'', JObj [
                     (''margins'', JObj [(''left'', JNum 0), (''right'', JNum 0), (''top'', JNum 0),
                                         (''bottom'', JNum 0)]),
                     (''colors'', JObj [(''background'', JStr ''#000000''), (''font'', JStr ''#FFFFFF'')])]),
                   (''mobile'', JObj [(''cameraFlip'', JBool False), (''demoMode'', JBool True),
                                      (''mainboardPopup'', JBool False)])])])"
proof -
  let ?evs = "[(''a'', OnUpdateMobileSettings (JObj [(''demoMode'', JBool True)]))]"
  let ?s = "server_init\<lparr>mobileSettings := [(''cameraFlip'', JBool False), (''demoMode'', JBool True),
            (''mainboardPopup'', JBool False)]\<rparr>"
  have n: "''o'' \<noteq> ''n''" by simp
  have r: "server_run ?evs server_init =
      Inr (?s, [Emit (ToOthers ''a'') ''mobile-settings-updated'' (JObj [(''demoMode'', JBool True)])])"
    by (simp add: server_update_mobile_settings_def spread_merge_def server_init_def)
  note t = connection_settings_snapshot [of "''n''" server_init]
  note t3 = t [THEN conjunct2, THEN conjunct2, THEN conjunct1, rule_format]
  note t4 = t [THEN conjunct2, THEN conjunct2, THEN conjunct2, rule_format]
  have a: "\<not> list_ex (receives [] ''o'') (snd (server_connection ''n'' server_init))"
    by (rule t3 [OF n])
  have b: "server_run (?evs @ [(''n'', OnConnection)]) server_init =
      Inr (?s, [Emit (ToOthers ''a'') ''mobile-settings-updated'' (JObj [(''demoMode'', JBool True)])] @
        [Emit (ToSocket ''n'') ''initial-settings''
            (JObj [(''display'', JObj [(''margins'', margins (displaySettings ?s)),
                                       (''colors'', colors (displaySettings ?s))]),
                   (''mobile'', JObj (mobileSettings ?s))])])"
    by (rule t4 [OF r])
  from b have b': "server_run [(''a'', OnUpdateMobileSettings (JObj [(''demoMode'', JBool True)])), (''n'', OnConnection)]
     server_init =
     Inr (?s,
          [Emit (ToOthers ''a'') ''mobile-settings-updated'' (JObj [(''demoMode'', JBool True)]),
           Emit (ToSocket ''n'') ''initial-settings''
            (JObj [(''display'', JObj [
                     (''margins'', JObj [(''left'', JNum 0), (''right'', JNum 0), (''top'', JNum 0),
                                         (''bottom'', JNum 0)]),
                     (''colors'', JObj [(''background'', JStr ''#000000''), (''font'', JStr ''#FFFFFF'')])]),
                   (''mobile'', JObj [(''cameraFlip'', JBool False), (''demoMode'', JBool True),
                                      (''mainboardPopup'', JBool False)])])])"
    by (simp add: server_init_def)
  show ?thesis by (intro conjI n a r b')
qed

section \<open>Display settings\<close>

text \<open>
  C6, as the claim states it, fails on server.js: after the two updates the stored
  colours are exactly the object that was sent, without \<open>font\<close>, and the stored
  margins are exactly the object that was sent, without \<open>right\<close>, \<open>top\<close> and \<open>bottom\<close>;
  these fields of the defaults are not kept.
\<close>

theorem settings_merge_counterexample:
  "server_run
     [(''a'', OnUpdateDisplaySettings (JObj [(''colors'', JObj [(''background'', JStr ''#111'')])])),
      (''a'', OnUpdateDisplaySettings (JObj [(''margins'', JObj [(''left'', JNum 5)])]))]
     server_init =
   Inr (server_init\<lparr>displaySettings :=
          \<lparr>margins = JObj [(''left'', JNum 5)], colors = JObj [(''background'', JStr ''#111'')]\<rparr>\<rparr>,
        [Emit (ToOthers ''a'') ''display-settings-updated''
           (JObj [(''colors'', JObj [(''background'', JStr ''#111'')])]),
         Emit (ToOthers ''a'') ''display-settings-updated''
           (JObj [(''margins'', JObj [(''left'', JNum 5)])])]) \<and>
   get_prop (colors (displaySettings server_init)) ''font'' = Inr (JStr ''#FFFFFF'') \<and>
   get_prop (JObj [(''background'', JStr ''#111'')]) ''font'' = Inr JUndefined \<and>
   get_prop (margins (displaySettings server_init)) ''right'' = Inr (JNum 0) \<and>
   get_prop (JObj [(''left'', JNum 5)]) ''right'' = Inr JUndefined"
  by (simp add: server_update_display_settings_def server_init_def)

text \<open>
  C6, amended. In server.js, a display-settings update replaces each top-level
  sub-object it supplies (\<open>margins\<close>, \<open>colors\<close>) by the supplied object as a whole and
  leaves alone the one it does not supply, and everything else in the state. Updates
  on the two different keys therefore compose, in either order: the store then holds
  the supplied colours and the supplied margins, and nothing of the former two
  sub-objects.
\<close>

theorem display_settings_replace:
  "truthy c \<and> truthy m \<longrightarrow>
     server_update_display_settings a (JObj [(''colors'', c)]) s =
       Inr (s\<lparr>displaySettings := (displaySettings s)\<lparr>colors := c\<rparr>\<rparr>,
            [Emit (ToOthers a) ''display-settings-updated'' (JObj [(''colors'', c)])]) \<and>
     server_update_display_settings b (JObj [(''margins'', m)]) s =
       Inr (s\<lparr>displaySettings := (displaySettings s)\<lparr>margins := m\<rparr>\<rparr>,
            [Emit (ToOthers b) ''display-settings-updated'' (JObj [(''margins'', m)])]) \<and>
     server_run [(a, OnUpdateDisplaySettings (JObj [(''colors'', c)])),
                 (b, OnUpdateDisplaySettings (JObj [(''margins'', m)]))] s =
       Inr (s\<lparr>displaySettings := \<lparr>margins = m, colors = c\<rparr>\<rparr>,
            [Emit (ToOthers a) ''display-settings-updated'' (JObj [(''colors'', c)]),
             Emit (ToOthers b) ''display-settings-updated'' (JObj [(''margins'', m)])]) \<and>
     server_run [(b, OnUpdateDisplaySettings (JObj [(''margins'', m)])),
                 (a, OnUpdateDisplaySettings (JObj [(''colors'', c)]))] s =
       Inr (s\<lparr>displaySettings := \<lparr>margins = m, colors = c\<rparr>\<rparr>,
            [Emit (ToOthers b) ''display-settings-updated'' (JObj [(''margins'', m)]),
             Emit (ToOthers a) ''display-settings-updated'' (JObj [(''colors'', c)])])"
  by (simp add: server_update_display_settings_def)

theorem display_settings_replace_witness:
  "truthy (JObj [(''background'', JStr ''#111'')]) \<and> truthy (JObj [(''left'', JNum 5)]) \<and>
   server_run
     [(''a'', OnUpdateDisplaySettings (JObj [(''colors'', JObj [(''background'', JStr ''#111'')])])),
      (''a'', OnUpdateDisplaySettings (JObj [(''margins'', JObj [(''left'', JNum 5)])]))]
     server_init =
   Inr (server_init\<lparr>displaySettings :=
          \<lparr>margins = JObj [(''left'', JNum 5)], colors = JObj [(''background'', JStr ''#111'')]\<rparr>\<rparr>,
        [Emit (ToOthers ''a'') ''display-settings-updated''
           (JObj [(''colors'', JObj [(''background'', JStr ''#111'')])]),
         Emit (ToOthers ''a'') ''display-settings-updated''
           (JObj [(''margins'', JObj [(''left'', JNum 5)])])])"
proof -
  have h: "truthy (JObj [(''background'', JStr ''#111'')]) \<and> truthy (JObj [(''left'', JNum 5)])"
    by simp
  note t = display_settings_replace
      [of "JObj [(''background'', JStr ''#111'')]" "JObj [(''left'', JNum 5)]" "''a''" server_init "''a''",
       rule_format, OF h]
  show ?thesis
    by (intro conjI h [THEN conjunct1] h [THEN conjunct2] t [THEN conjunct2, THEN conjunct2, THEN conjunct1])
qed

section \<open>Registration of a mobile device\<close>

text \<open>
  C7. The server that setup.js generates does not do what the claim says when a socket
  that is already registered registers again without a name. From the empty registry,
  the first registration of socket \<open>a\<close> with the payload \<open>{}\<close> stores and announces
  \<open>Phone 1\<close>; the second one, with the same payload, overwrites the stored name with
  \<open>Phone 2\<close> and announces \<open>Phone 1\<close>: the overwrite is not idempotent, and the stored
  name and the announced name, which the handler computes from the size of the map
  before and after the entry is set, no longer agree. A registration that comes with
  no payload at all throws a TypeError and registers nothing.
\<close>

theorem register_without_name_twice:
  "setup_register_mobile_device ''a'' (JObj []) setup_init =
     Inr (\<lparr>connectedDevices = [(''a'', \<lparr>type = ''mobile'', name = JStr ''Phone 1'', preview = JNull\<rparr>)],
           rooms = []\<rparr>,
          [Emit (ToRoom ''control-room'') ''device-connected''
             (JObj [(''id'', JStr ''a''), (''type'', JStr ''mobile''), (''name'', JStr ''Phone 1'')])]) \<and>
   setup_register_mobile_device ''a'' (JObj [])
       \<lparr>connectedDevices = [(''a'', \<lparr>type = ''mobile'', name = JStr ''Phone 1'', preview = JNull\<rparr>)],
        rooms = []\<rparr> =
     Inr (\<lparr>connectedDevices = [(''a'', \<lparr>type = ''mobile'', name = JStr ''Phone 2'', preview = JNull\<rparr>)],
           rooms = []\<rparr>,
          [Emit (ToRoom ''control-room'') ''device-connected''
             (JObj [(''id'', JStr ''a''), (''type'', JStr ''mobile''), (''name'', JStr ''Phone 1'')])]) \<and>
   JStr ''Phone 2'' \<noteq> JStr ''Phone 1'' \<and>
   setup_register_mobile_device ''a'' JUndefined setup_init = Inl TypeError"
  by (simp add: setup_register_mobile_device_def setup_init_def js_or_def phone_1 phone_2 Let_def)

section \<open>Sponsor uploads\<close>

lemma split_on_plain: "c \<notin> set x \<Longrightarrow> split_on c x = [x]"
  by (induction x) auto

lemma split_on_append: "c \<notin> set x \<Longrightarrow> split_on c (x @ c # rest) = x # split_on c rest"
  by (induction x) auto

lemma join_with_Cons: "ys \<noteq> [] \<Longrightarrow> join_with sep (x # ys) = x @ sep @ join_with sep ys"
  by (cases ys) auto

lemma join_with_append:
  "xs \<noteq> [] \<Longrightarrow> ys \<noteq> [] \<Longrightarrow> join_with sep (xs @ ys) = join_with sep xs @ sep @ join_with sep ys"
proof (induction xs)
  case Nil
  then show ?case by simp
next
  case (Cons x xs)
  show ?case
  proof (cases "xs = []")
    case True
    with Cons.prems show ?thesis by (simp add: join_with_Cons)
  next
    case False
    with Cons show ?thesis by (simp add: join_with_Cons)
  qed
qed

lemma split_on_join:
  "ds \<noteq> [] \<Longrightarrow> \<forall>d \<in> set ds. c \<notin> set d \<Longrightarrow> split_on c (join_with [c] ds) = ds"
proof (induction ds)
  case Nil
  then show ?case by simp
next
  case (Cons d ds)
  show ?case
  proof (cases "ds = []")
    case True
    with Cons.prems show ?thesis by (simp add: split_on_plain)
  next
    case False
    with Cons show ?thesis by (simp add: join_with_Cons split_on_append)
  qed
qed

lemma normalizeString_plain:
  "\<forall>d \<in> set ds. plain_segment d \<Longrightarrow>
   normalizeString allow res (ds @ rest) = normalizeString allow (rev ds @ res) rest"
  by (induction ds arbitrary: res) (auto simp: plain_segment_def)

lemma normalize_absolute:
  assumes ds: "ds \<noteq> []" "\<forall>d \<in> set ds. plain_segment d"
    and x: "plain_segment x"
  shows "normalize (''/'' @ join_with ''/'' (ds @ [''public'', ''uploads'', ''..'', ''..'', x])) =
         ''/'' @ join_with ''/'' (ds @ [x])"
proof -
  let ?segs = "ds @ [''public'', ''uploads'', ''..'', ''..'', x]"
  let ?p = "''/'' @ join_with ''/'' ?segs"
  have x_ne: "x \<noteq> []" and x_slash: "CHR ''/'' \<notin> set x"
    using x by (simp_all add: plain_segment_def)
  have noslash: "\<forall>d \<in> set ?segs. CHR ''/'' \<notin> set d"
    using ds(2) x by (auto simp: plain_segment_def)
  have sp: "split_on CHR ''/'' ?p = [] # ?segs"
    using split_on_append [of "CHR ''/''" "[]" "join_with ''/'' ?segs"]
      split_on_join [of ?segs "CHR ''/''"] noslash
    by simp
  have ns: "normalizeString False [] ([] # ?segs) = ds @ [x]"
    using normalizeString_plain [OF ds(2), of False "[]" "[''public'', ''uploads'', ''..'', ''..'', x]"] x
    by (simp add: plain_segment_def)
  have lastp: "last ?p = last x"
    using x_ne ds(1) by (simp add: join_with_append)
  have "last x \<in> set x" using x_ne by simp
  with x_slash have trailing: "last ?p \<noteq> CHR ''/''"
    using lastp by auto
  have q_ne: "join_with ''/'' (ds @ [x]) \<noteq> []"
    using ds(1) by (simp add: join_with_append)
  show ?thesis
    using trailing q_ne sp ns by (simp add: normalize_def Let_def)
qed


lemma normalize_plain_path:
  assumes ds: "ds \<noteq> []" "\<forall>d \<in> set ds. plain_segment d"
  shows "normalize (''/'' @ join_with ''/'' ds) = ''/'' @ join_with ''/'' ds"
proof -
  let ?p = "''/'' @ join_with ''/'' ds"
  obtain front y where fy: "ds = front @ [y]"
    using ds(1) by (cases ds rule: rev_cases) auto
  have y: "plain_segment y" using ds(2) fy by simp
  then have y_ne: "y \<noteq> []" and y_slash: "CHR ''/'' \<notin> set y"
    by (simp_all add: plain_segment_def)
  have noslash: "\<forall>d \<in> set ds. CHR ''/'' \<notin> set d"
    using ds(2) by (auto simp: plain_segment_def)
  have sp: "split_on CHR ''/'' ?p = [] # ds"
    using split_on_append [of "CHR ''/''" "[]" "join_with ''/'' ds"]
      split_on_join [of ds "CHR ''/''"] noslash ds(1)
    by simp
  have ns: "normalizeString False [] ds = ds"
    using normalizeString_plain [OF ds(2), of False "[]" "[]"] by simp
  have q_ne: "join_with ''/'' ds \<noteq> []"
    using y_ne fy by (cases "front = []") (simp_all add: join_with_append)
  have "last (join_with ''/'' ds) = last y"
    using y_ne fy by (cases "front = []") (simp_all add: join_with_append)
  moreover have "last y \<in> set y" using y_ne by simp
  ultimately have trailing: "last (join_with ''/'' ds) \<noteq> CHR ''/''"
    using y_slash by auto
  show ?thesis
    using trailing q_ne sp ns by (simp add: normalize_def Let_def)
qed

lemma not_under_uploads:
  assumes "plain_segment x"
  shows "\<not> prefix (d @ ''/public/uploads/'') (d @ ''/'' @ x)"
proof
  assume "prefix (d @ ''/public/uploads/'') (d @ ''/'' @ x)"
  then have "prefix ''public/uploads/'' x" by simp
  then obtain r where "x = ''public/uploads/'' @ r" by (auto simp: prefix_def)
  then have "CHR ''/'' \<in> set x" by simp
  with assms show False by (simp add: plain_segment_def)
qed

text \<open>
  C10. In server.js, \<open>upload-sponsor\<close> passes the client's \<open>fileName\<close> unchanged into
  \<^verbatim>\<open>path.join(__dirname, 'public', 'uploads', fileName)\<close>, whose result is the path
  handed to \<^verbatim>\<open>fs.writeFileSync\<close>, and, when that write returns, unchanged into the URL
  \<open>/uploads/<fileName>\<close> sent back to the uploader alone; when the write throws, the
  handler ends with that error. For a server directory made of plain segments and the
  file name \<open>../../x\<close> the path written to is \<open>x\<close> directly in the server directory,
  which is not under the uploads directory.
\<close>

theorem upload_sponsor_file_name:
  "(get_prop data ''fileName'' = Inr (JStr f) \<and> get_prop data ''fileData'' = Inr fd \<and>
    second_part fd = Inr b \<and>
    (existsSync fs (normalize (join_with ''/'' (filter (\<lambda>a. a \<noteq> []) [dirname, ''public'', ''uploads''])))
     \<or> mkdirSync fs (normalize (join_with ''/'' (filter (\<lambda>a. a \<noteq> []) [dirname, ''public'', ''uploads'']))) = None)
    \<longrightarrow>
      fst (server_upload_sponsor fs dirname sid data) =
        (if existsSync fs (normalize (join_with ''/'' (filter (\<lambda>a. a \<noteq> []) [dirname, ''public'', ''uploads''])))
         then []
         else [MkdirSync (normalize (join_with ''/''
                 (filter (\<lambda>a. a \<noteq> []) [dirname, ''public'', ''uploads''])))]) @
        [WriteFileSync
           (normalize (join_with ''/'' (filter (\<lambda>a. a \<noteq> []) [dirname, ''public'', ''uploads'', f])))
           (Base64 b)] \<and>
      snd (server_upload_sponsor fs dirname sid data) =
        (case writeFileSync fs
                (normalize (join_with ''/'' (filter (\<lambda>a. a \<noteq> []) [dirname, ''public'', ''uploads'', f])))
                (Base64 b) of
           None \<Rightarrow> Inr [Emit (ToSocket sid) ''sponsor-uploaded'' (JObj [(''url'', JStr (''/uploads/'' @ f))])]
         | Some e \<Rightarrow> Inl e)) \<and>
   (ds \<noteq> [] \<and> list_all plain_segment ds \<and> plain_segment x \<and>
    get_prop data ''fileName'' = Inr (JStr (''../../'' @ x)) \<and> get_prop data ''fileData'' = Inr fd \<and>
    second_part fd = Inr b \<and> existsSync fs (''/'' @ join_with ''/'' ds @ ''/public/uploads'') \<longrightarrow>
      path_join [JStr (''/'' @ join_with ''/'' ds), JStr ''public'', JStr ''uploads''] =
        Inr (''/'' @ join_with ''/'' ds @ ''/public/uploads'') \<and>
      fst (server_upload_sponsor fs (''/'' @ join_with ''/'' ds) sid data) =
        [WriteFileSync (''/'' @ join_with ''/'' ds @ ''/'' @ x) (Base64 b)] \<and>
      snd (server_upload_sponsor fs (''/'' @ join_with ''/'' ds) sid data) =
        (case writeFileSync fs (''/'' @ join_with ''/'' ds @ ''/'' @ x) (Base64 b) of
           None \<Rightarrow> Inr [Emit (ToSocket sid) ''sponsor-uploaded''
                          (JObj [(''url'', JStr (''/uploads/../../'' @ x))])]
         | Some e \<Rightarrow> Inl e) \<and>
      \<not> prefix (''/'' @ join_with ''/'' ds @ ''/public/uploads/'') (''/'' @ join_with ''/'' ds @ ''/'' @ x))"
proof (intro conjI impI)
  let ?U = "normalize (join_with ''/'' (filter (\<lambda>a. a \<noteq> []) [dirname, ''public'', ''uploads'']))"
  let ?P = "normalize (join_with ''/'' (filter (\<lambda>a. a \<noteq> []) [dirname, ''public'', ''uploads'', f]))"
  assume h: "get_prop data ''fileName'' = Inr (JStr f) \<and> get_prop data ''fileData'' = Inr fd \<and>
    second_part fd = Inr b \<and> (existsSync fs ?U \<or> mkdirSync fs ?U = None)"
  have j1: "join_with ''/'' (filter (\<lambda>a. a \<noteq> []) [dirname, ''public'', ''uploads'', f]) \<noteq> []"
    by (cases "dirname = []"; cases "f = []") simp_all
  have j2: "join_with ''/'' (filter (\<lambda>a. a \<noteq> []) [dirname, ''public'', ''uploads'']) \<noteq> []"
    by (cases "dirname = []") simp_all
  have pf: "path_join [JStr dirname, JStr ''public'', JStr ''uploads'', JStr f] = Inr ?P"
    using j1 by (simp add: path_join_def Let_def del: join_with.simps filter.simps)
  have pu: "path_join [JStr dirname, JStr ''public'', JStr ''uploads''] = Inr ?U"
    using j2 by (simp add: path_join_def Let_def del: join_with.simps filter.simps)
  have mk: "(if existsSync fs ?U then None else mkdirSync fs ?U) = None"
    using h by auto
  show "fst (server_upload_sponsor fs dirname sid data) =
        (if existsSync fs ?U then [] else [MkdirSync ?U]) @ [WriteFileSync ?P (Base64 b)]"
    using h mk pf pu by (simp add: server_upload_sponsor_def Let_def split: option.splits
        del: join_with.simps filter.simps)
  show "snd (server_upload_sponsor fs dirname sid data) =
        (case writeFileSync fs ?P (Base64 b) of
           None \<Rightarrow> Inr [Emit (ToSocket sid) ''sponsor-uploaded'' (JObj [(''url'', JStr (''/uploads/'' @ f))])]
         | Some e \<Rightarrow> Inl e)"
    using h mk pf pu by (simp add: server_upload_sponsor_def Let_def split: option.splits
        del: join_with.simps filter.simps)
next
  let ?D = "''/'' @ join_with ''/'' ds"
  assume h: "ds \<noteq> [] \<and> list_all plain_segment ds \<and> plain_segment x \<and>
    get_prop data ''fileName'' = Inr (JStr (''../../'' @ x)) \<and> get_prop data ''fileData'' = Inr fd \<and>
    second_part fd = Inr b \<and> existsSync fs (''/'' @ join_with ''/'' ds @ ''/public/uploads'')"
  then have ds: "ds \<noteq> []" "\<forall>d \<in> set ds. plain_segment d" and x: "plain_segment x"
    by (simp_all add: list_all_iff)
  have up_plain: "\<forall>d \<in> set (ds @ [''public'', ''uploads'']). plain_segment d"
    using ds(2) by (auto simp: plain_segment_def)
  have ju: "join_with ''/'' (filter (\<lambda>a. a \<noteq> []) [?D, ''public'', ''uploads'']) =
      ''/'' @ join_with ''/'' (ds @ [''public'', ''uploads''])"
    using ds(1) by (simp add: join_with_append)
  have jf: "join_with ''/'' (filter (\<lambda>a. a \<noteq> []) [?D, ''public'', ''uploads'', ''../../'' @ x]) =
      ''/'' @ join_with ''/'' (ds @ [''public'', ''uploads'', ''..'', ''..'', x])"
    using ds(1) by (simp add: join_with_append)
  have nu: "normalize (''/'' @ join_with ''/'' (ds @ [''public'', ''uploads''])) =
      ''/'' @ join_with ''/'' ds @ ''/public/uploads''"
    using normalize_plain_path [of "ds @ [''public'', ''uploads'']"] up_plain ds(1)
    by (simp add: join_with_append)
  have nf: "normalize (''/'' @ join_with ''/'' (ds @ [''public'', ''uploads'', ''..'', ''..'', x])) =
      ''/'' @ join_with ''/'' ds @ ''/'' @ x"
    using normalize_absolute [OF ds x] ds(1) by (simp add: join_with_append)
  have pu: "path_join [JStr ?D, JStr ''public'', JStr ''uploads''] =
      Inr (''/'' @ join_with ''/'' ds @ ''/public/uploads'')"
    using ju nu by (simp add: path_join_def Let_def del: join_with.simps filter.simps)
  have pf: "path_join [JStr ?D, JStr ''public'', JStr ''uploads'', JStr (''../../'' @ x)] =
      Inr (''/'' @ join_with ''/'' ds @ ''/'' @ x)"
    using jf nf by (simp add: path_join_def Let_def del: join_with.simps filter.simps)
  have out: "\<not> prefix (?D @ ''/public/uploads/'') (?D @ ''/'' @ x)"
    by (rule not_under_uploads [OF x])
  show "path_join [JStr (''/'' @ join_with ''/'' ds), JStr ''public'', JStr ''uploads''] =
        Inr (''/'' @ join_with ''/'' ds @ ''/public/uploads'')"
    by (rule pu)
  show "fst (server_upload_sponsor fs (''/'' @ join_with ''/'' ds) sid data) =
        [WriteFileSync (''/'' @ join_with ''/'' ds @ ''/'' @ x) (Base64 b)]"
    using h pf pu by (simp add: server_upload_sponsor_def split: option.splits)
  show "snd (server_upload_sponsor fs (''/'' @ join_with ''/'' ds) sid data) =
        (case writeFileSync fs (''/'' @ join_with ''/'' ds @ ''/'' @ x) (Base64 b) of
           None \<Rightarrow> Inr [Emit (ToSocket sid) ''sponsor-uploaded''
                          (JObj [(''url'', JStr (''/uploads/../../'' @ x))])]
         | Some e \<Rightarrow> Inl e)"
    using h pf pu by (simp add: server_upload_sponsor_def split: option.splits)
  show "\<not> prefix (''/'' @ join_with ''/'' ds @ ''/public/uploads/'') (''/'' @ join_with ''/'' ds @ ''/'' @ x)"
    using out by simp
qed

theorem upload_sponsor_file_name_witness:
  "list_all plain_segment [''srv'', ''app''] \<and> plain_segment ''server.js'' \<and>
   second_part (JStr ''data:image/png;base64,AAAA'') = Inr ''AAAA'' \<and>
   fst (server_upload_sponsor
     \<lparr>existsSync = (\<lambda>p. True), mkdirSync = (\<lambda>p. None),
      writeFileSync = (\<lambda>p c. if p = ''/srv/app/public/uploads'' then Some (SystemError ''EISDIR'') else None)\<rparr>
     ''/srv/app'' ''s1'' (JObj [(''fileName'', JStr ''../../server.js''), (''fileData'', JStr ''data:image/png;base64,AAAA'')])) =
     [WriteFileSync ''/srv/app/server.js'' (Base64 ''AAAA'')] \<and>
   snd (server_upload_sponsor
     \<lparr>existsSync = (\<lambda>p. True), mkdirSync = (\<lambda>p. None),
      writeFileSync = (\<lambda>p c. if p = ''/srv/app/public/uploads'' then Some (SystemError ''EISDIR'') else None)\<rparr>
     ''/srv/app'' ''s1'' (JObj [(''fileName'', JStr ''../../server.js''), (''fileData'', JStr ''data:image/png;base64,AAAA'')])) =
     Inr [Emit (ToSocket ''s1'') ''sponsor-uploaded'' (JObj [(''url'', JStr ''/uploads/../../server.js'')])] \<and>
   \<not> prefix ''/srv/app/public/uploads/'' ''/srv/app/server.js'' \<and>
   fst (server_upload_sponsor
     \<lparr>existsSync = (\<lambda>p. True), mkdirSync = (\<lambda>p. None),
      writeFileSync = (\<lambda>p c. if p = ''/srv/app/public/uploads'' then Some (SystemError ''EISDIR'') else None)\<rparr>
     ''/srv/app'' ''s1'' (JObj [(''fileName'', JStr []), (''fileData'', JStr ''data:image/png;base64,AAAA'')])) =
     [WriteFileSync ''/srv/app/public/uploads'' (Base64 ''AAAA'')] \<and>
   snd (server_upload_sponsor
     \<lparr>existsSync = (\<lambda>p. True), mkdirSync = (\<lambda>p. None),
      writeFileSync = (\<lambda>p c. if p = ''/srv/app/public/uploads'' then Some (SystemError ''EISDIR'') else None)\<rparr>
     ''/srv/app'' ''s1'' (JObj [(''fileName'', JStr []), (''fileData'', JStr ''data:image/png;base64,AAAA'')])) =
     Inl (SystemError ''EISDIR'') \<and>
   fst (server_upload_sponsor
     \<lparr>existsSync = (\<lambda>p. False), mkdirSync = (\<lambda>p. None), writeFileSync = (\<lambda>p c. None)\<rparr>
     ''/srv/app'' ''s1'' (JObj [(''fileName'', JStr ''logo.png''), (''fileData'', JStr ''data:image/png;base64,AAAA'')])) =
     [MkdirSync ''/srv/app/public/uploads'',
      WriteFileSync ''/srv/app/public/uploads/logo.png'' (Base64 ''AAAA'')] \<and>
   snd (server_upload_sponsor
     \<lparr>existsSync = (\<lambda>p. False), mkdirSync = (\<lambda>p. None), writeFileSync = (\<lambda>p c. None)\<rparr>
     ''/srv/app'' ''s1'' (JObj [(''fileName'', JStr ''logo.png''), (''fileData'', JStr ''data:image/png;base64,AAAA'')])) =
     Inr [Emit (ToSocket ''s1'') ''sponsor-uploaded'' (JObj [(''url'', JStr ''/uploads/logo.png'')])]"
proof -
  let ?fs0 = "\<lparr>existsSync = (\<lambda>p. True), mkdirSync = (\<lambda>p. None),
      writeFileSync = (\<lambda>p c. if p = ''/srv/app/public/uploads'' then Some (SystemError ''EISDIR'') else None)\<rparr>"
  let ?fs1 = "\<lparr>existsSync = (\<lambda>p. False), mkdirSync = (\<lambda>p. None), writeFileSync = (\<lambda>p c. None)\<rparr>"
  let ?fd = "JStr ''data:image/png;base64,AAAA''"
  let ?dt = "(JObj [(''fileName'', JStr ''../../server.js''), (''fileData'', JStr ''data:image/png;base64,AAAA'')])"
  let ?de = "(JObj [(''fileName'', JStr []), (''fileData'', JStr ''data:image/png;base64,AAAA'')])"
  let ?dl = "(JObj [(''fileName'', JStr ''logo.png''), (''fileData'', JStr ''data:image/png;base64,AAAA'')])"
  have g3: "second_part ?fd = Inr ''AAAA''" by simp
  have p1: "list_all plain_segment [''srv'', ''app'']" by (simp add: plain_segment_def)
  have p2: "plain_segment ''server.js''" by (simp add: plain_segment_def)
  have n1: "normalize ''/srv/app/public/uploads'' = ''/srv/app/public/uploads''"
    by (simp add: normalize_def)
  have n2: "normalize ''/srv/app/public/uploads/logo.png'' = ''/srv/app/public/uploads/logo.png''"
    by (simp add: normalize_def)
  have ht: "[''srv'', ''app''] \<noteq> [] \<and> list_all plain_segment [''srv'', ''app''] \<and>
      plain_segment ''server.js'' \<and>
      get_prop ?dt ''fileName'' = Inr (JStr (''../../'' @ ''server.js'')) \<and>
      get_prop ?dt ''fileData'' = Inr ?fd \<and> second_part ?fd = Inr ''AAAA'' \<and>
      existsSync ?fs0 (''/'' @ join_with ''/'' [''srv'', ''app''] @ ''/public/uploads'')"
    using g3 p1 p2 by simp
  have he: "get_prop ?de ''fileName'' = Inr (JStr []) \<and> get_prop ?de ''fileData'' = Inr ?fd \<and>
      second_part ?fd = Inr ''AAAA'' \<and>
      (existsSync ?fs0 (normalize (join_with ''/'' (filter (\<lambda>a. a \<noteq> []) [''/srv/app'', ''public'', ''uploads''])))
       \<or> mkdirSync ?fs0 (normalize (join_with ''/'' (filter (\<lambda>a. a \<noteq> []) [''/srv/app'', ''public'', ''uploads'']))) = None)"
    using g3 by simp
  have hl: "get_prop ?dl ''fileName'' = Inr (JStr ''logo.png'') \<and> get_prop ?dl ''fileData'' = Inr ?fd \<and>
      second_part ?fd = Inr ''AAAA'' \<and>
      (existsSync ?fs1 (normalize (join_with ''/'' (filter (\<lambda>a. a \<noteq> []) [''/srv/app'', ''public'', ''uploads''])))
       \<or> mkdirSync ?fs1 (normalize (join_with ''/'' (filter (\<lambda>a. a \<noteq> []) [''/srv/app'', ''public'', ''uploads'']))) = None)"
    using g3 by simp
  note tt = upload_sponsor_file_name [THEN conjunct2, rule_format, OF ht, where sid = "''s1''"]
  note te = upload_sponsor_file_name [THEN conjunct1, rule_format, OF he, where sid = "''s1''"]
  note tl = upload_sponsor_file_name [THEN conjunct1, rule_format, OF hl, where sid = "''s1''"]
  have a1: "fst (server_upload_sponsor ?fs0 ''/srv/app'' ''s1'' ?dt) =
      [WriteFileSync ''/srv/app/server.js'' (Base64 ''AAAA'')]"
    using tt [THEN conjunct2, THEN conjunct1] by simp
  have a2: "snd (server_upload_sponsor ?fs0 ''/srv/app'' ''s1'' ?dt) =
      Inr [Emit (ToSocket ''s1'') ''sponsor-uploaded'' (JObj [(''url'', JStr ''/uploads/../../server.js'')])]"
    using tt [THEN conjunct2, THEN conjunct2, THEN conjunct1] by simp
  have a3: "\<not> prefix ''/srv/app/public/uploads/'' ''/srv/app/server.js''"
    using tt [THEN conjunct2, THEN conjunct2, THEN conjunct2] by simp
  have b1: "fst (server_upload_sponsor ?fs0 ''/srv/app'' ''s1'' ?de) =
      [WriteFileSync ''/srv/app/public/uploads'' (Base64 ''AAAA'')]"
    using te [THEN conjunct1] n1 by simp
  have b2: "snd (server_upload_sponsor ?fs0 ''/srv/app'' ''s1'' ?de) = Inl (SystemError ''EISDIR'')"
    using te [THEN conjunct2] n1 by simp
  have c1: "fst (server_upload_sponsor ?fs1 ''/srv/app'' ''s1'' ?dl) =
      [MkdirSync ''/srv/app/public/uploads'',
       WriteFileSync ''/srv/app/public/uploads/logo.png'' (Base64 ''AAAA'')]"
    using tl [THEN conjunct1] n1 n2 by simp
  have c2: "snd (server_upload_sponsor ?fs1 ''/srv/app'' ''s1'' ?dl) =
      Inr [Emit (ToSocket ''s1'') ''sponsor-uploaded'' (JObj [(''url'', JStr ''/uploads/logo.png'')])]"
    using tl [THEN conjunct2] n2 by simp
  show ?thesis by (intro conjI p1 p2 g3 a1 a2 a3 b1 b2 c1 c2)
qed

end
